theory Spec2Isabelle
  imports Main "HOL-Library.Sublist"
begin

section \<open>Session store: class AuthManager (src/src/auth.ts)\<close>

text \<open>
  A JavaScript \<^verbatim>\<open>Date\<close> is modelled by its time value, the number of milliseconds since
  the epoch, as an \<^typ>\<open>int\<close>; comparing two dates with \<^verbatim>\<open>>\<close> compares these numbers.
  The two readings of the environment that the class makes, \<^verbatim>\<open>new Date()\<close> and the
  identifier computed by \<^verbatim>\<open>generateSecureSessionId\<close> (an HMAC over the clock and
  \<^verbatim>\<open>Math.random\<close>), are arguments of the functions that make them.
  The field \<^verbatim>\<open>id\<close> of a session is called \<open>id_s\<close> here, since \<open>id\<close> is the identity
  function of HOL.
\<close>

record SessionData =
  id_s :: string
  userId :: string
  createdAt :: int
  lastActivity :: int
  scopes :: "string list"
  expiresAt :: int

record AuthManager =
  sessions :: "string \<rightharpoonup> SessionData"
  secret :: string

text \<open>\<^verbatim>\<open>validateApiKey\<close>: the prefix \<^verbatim>\<open>bp_sk_\<close>, then more than 8 characters in all.\<close>

definition validateApiKey :: "string \<Rightarrow> bool" where
  "validateApiKey apiKey =
     (if \<not> prefix ''bp_sk_'' apiKey then False else length apiKey > 8)"

text \<open>
  \<^verbatim>\<open>createSession\<close>: \<open>sessionId\<close> is what \<^verbatim>\<open>generateSecureSessionId()\<close> returned and
  \<open>now\<close> what \<^verbatim>\<open>new Date()\<close> returned. \<^verbatim>\<open>Map.set\<close> replaces a record stored under the
  same key.
\<close>

definition createSession ::
  "AuthManager \<Rightarrow> string \<Rightarrow> int \<Rightarrow> string \<Rightarrow> string list \<Rightarrow> SessionData \<times> AuthManager" where
  "createSession am sessionId now uid scs =
     (let session = \<lparr> id_s = sessionId, userId = uid, createdAt = now, lastActivity = now,
                       scopes = scs, expiresAt = now + 30 * 60 * 1000 \<rparr>
      in (session, am\<lparr> sessions := (sessions am)(sessionId \<mapsto> session) \<rparr>))"

definition destroySession :: "AuthManager \<Rightarrow> string \<Rightarrow> AuthManager" where
  "destroySession am sessionId = am\<lparr> sessions := (sessions am)(sessionId := None) \<rparr>"

text \<open>
  \<^verbatim>\<open>validateSession\<close>: the result \<^verbatim>\<open>null\<close> is \<open>None\<close>. The stored object is mutated
  and stored again, so the record returned is the record stored.
\<close>

definition validateSession ::
  "AuthManager \<Rightarrow> int \<Rightarrow> string \<Rightarrow> SessionData option \<times> AuthManager" where
  "validateSession am now sessionId =
     (case sessions am sessionId of
        None \<Rightarrow> (None, am)
      | Some session \<Rightarrow>
          if now > expiresAt session then (None, destroySession am sessionId)
          else (let session' = session\<lparr> lastActivity := now \<rparr>
                in (Some session', am\<lparr> sessions := (sessions am)(sessionId \<mapsto> session') \<rparr>)))"

text \<open>
  What \<^verbatim>\<open>getRequiredScope\<close> can hand to \<^verbatim>\<open>hasScope\<close>: a scope name of the table, or a
  member of \<^verbatim>\<open>Object.prototype\<close> that the lookup \<^verbatim>\<open>scopeMap[method]\<close> found through
  the prototype chain of the object literal (a function or an object, never a string).
\<close>

datatype ScopeValue = ScopeName string | Inherited string

text \<open>\<^verbatim>\<open>Array.prototype.includes\<close> on an array of strings.\<close>

definition arrayIncludes :: "string list \<Rightarrow> ScopeValue \<Rightarrow> bool" where
  "arrayIncludes xs v = (case v of ScopeName s \<Rightarrow> s \<in> set xs | Inherited k \<Rightarrow> False)"

definition hasScope :: "SessionData \<Rightarrow> ScopeValue \<Rightarrow> bool" where
  "hasScope session requiredScope =
     (if arrayIncludes (scopes session) (ScopeName ''admin'') then True
      else arrayIncludes (scopes session) requiredScope)"

definition cleanupExpiredSessions :: "AuthManager \<Rightarrow> int \<Rightarrow> AuthManager" where
  "cleanupExpiredSessions am now =
     am\<lparr> sessions := (\<lambda>k. case sessions am k of
                              None \<Rightarrow> None
                            | Some session \<Rightarrow> if now > expiresAt session then None else Some session) \<rparr>"

section \<open>JSON values and messages\<close>

text \<open>
  The values \<^verbatim>\<open>JSON.parse\<close> produces. Numbers are restricted to the integers (a request
  identifier with a fraction is outside the model).
\<close>

datatype json =
    JNull
  | JBool bool
  | JNum int
  | JString string
  | JArray "json list"
  | JObject "(string \<times> json) list"

text \<open>JavaScript truthiness, as \<^verbatim>\<open>if (message.id)\<close> tests it.\<close>

fun truthy :: "json \<Rightarrow> bool" where
  "truthy JNull = False"
| "truthy (JBool b) = b"
| "truthy (JNum n) = (n \<noteq> 0)"
| "truthy (JString s) = (s \<noteq> [])"
| "truthy (JArray xs) = True"
| "truthy (JObject kvs) = True"

text \<open>
  The parsed request body, with the properties the handlers read. \<open>None\<close> is a property
  that is absent (\<^verbatim>\<open>undefined\<close>). The method is a string, as the type \<^verbatim>\<open>Message\<close>
  declares it. \<open>Throws e\<close> is a body on which \<^verbatim>\<open>JSON.parse\<close>, or reading \<^verbatim>\<open>.method\<close> of
  the value \<^verbatim>\<open>null\<close> it returned, throws an error whose message is \<open>e\<close>.
\<close>

record Message =
  msg_id :: "json option"
  msg_method :: "string option"
  msg_params :: "json option"

datatype ParsedBody = Throws string | Parsed Message

definition idTruthy :: "Message \<Rightarrow> bool" where
  "idTruthy message = (case msg_id message of None \<Rightarrow> False | Some i \<Rightarrow> truthy i)"

text \<open>A template literal prints an absent method as \<^verbatim>\<open>undefined\<close>.\<close>

definition methodText :: "Message \<Rightarrow> string" where
  "methodText message = (case msg_method message of None \<Rightarrow> ''undefined'' | Some m \<Rightarrow> m)"

text \<open>An object literal with an \<^verbatim>\<open>id\<close> property: \<^verbatim>\<open>JSON.stringify\<close> leaves out a
  property whose value is \<^verbatim>\<open>undefined\<close>.\<close>

definition withId :: "Message \<Rightarrow> (string \<times> json) list \<Rightarrow> json" where
  "withId message rest =
     JObject ([(''jsonrpc'', JString ''2.0'')]
              @ (case msg_id message of None \<Rightarrow> [] | Some i \<Rightarrow> [(''id'', i)])
              @ rest)"

definition processedResult :: "Message \<Rightarrow> json" where
  "processedResult message =
     withId message
       [(''result'', JObject [(''success'', JBool True),
                              (''message'', JString (''Processed '' @ methodText message))])]"

section \<open>BlueprintsMCPServer.receiveMessage (src/unnamed/part_000)\<close>


section \<open>HTTP transport: class HTTPTransport (src/unnamed/part_001)\<close>

text \<open>The object literal \<^verbatim>\<open>scopeMap\<close> of \<^verbatim>\<open>getRequiredScope\<close>: its own properties.\<close>

definition scopeMap :: "(string \<times> string) list" where
  "scopeMap =
     [(''tools/list_agents'', ''read''),
      (''tools/create_agent'', ''write''),
      (''tools/start_agent'', ''execute''),
      (''tools/stop_agent'', ''execute''),
      (''tools/edit_agent_config'', ''write''),
      (''tools/remove_agent'', ''write''),
      (''tools/send_message'', ''write''),
      (''tools/send_terminal'', ''terminal''),
      (''tools/agent_status'', ''read''),
      (''tools/account_register'', ''read''),
      (''tools/pay_upgrade'', ''read''),
      (''list_agents'', ''read''),
      (''create_agent'', ''write''),
      (''start_agent'', ''execute''),
      (''stop_agent'', ''execute''),
      (''edit_agent_config'', ''write''),
      (''remove_agent'', ''write''),
      (''send_message'', ''write''),
      (''send_terminal'', ''terminal''),
      (''agent_status'', ''read''),
      (''account_register'', ''read''),
      (''pay_upgrade'', ''read'')]"

text \<open>
  The properties every object literal inherits from \<^verbatim>\<open>Object.prototype\<close>. Each is a
  function, but \<^verbatim>\<open>__proto__\<close>, which is the prototype object; all of them are truthy.
\<close>

definition objectPrototypeMembers :: "string list" where
  "objectPrototypeMembers =
     [''constructor'', ''__defineGetter__'', ''__defineSetter__'', ''hasOwnProperty'',
      ''__lookupGetter__'', ''__lookupSetter__'', ''isPrototypeOf'', ''propertyIsEnumerable'',
      ''toString'', ''valueOf'', ''__proto__'', ''toLocaleString'']"

text \<open>
  \<^verbatim>\<open>getRequiredScope\<close>: \<^verbatim>\<open>scopeMap[method] || null\<close>. The key of an absent method is the
  string \<^verbatim>\<open>undefined\<close>. An own property wins over an inherited one; every value that the
  lookup can find is truthy, so \<^verbatim>\<open>null\<close> (\<open>None\<close>) is the result exactly when the key is
  neither an own nor an inherited property.
\<close>

definition getRequiredScope :: "string option \<Rightarrow> ScopeValue option" where
  "getRequiredScope m =
     (let key = (case m of None \<Rightarrow> ''undefined'' | Some s \<Rightarrow> s) in
      case map_of scopeMap key of
        Some scope \<Rightarrow> Some (ScopeName scope)
      | None \<Rightarrow> if key \<in> set objectPrototypeMembers then Some (Inherited key) else None)"

text \<open>How a template literal prints the value (V8 prints a built-in function so).\<close>

definition scopeText :: "ScopeValue \<Rightarrow> string" where
  "scopeText v =
     (case v of
        ScopeName s \<Rightarrow> s
      | Inherited k \<Rightarrow>
          if k = ''__proto__'' then ''[object Object]''
          else ''function '' @ (if k = ''constructor'' then ''Object'' else k)
               @ ''() { [native code] }'')"

text \<open>
  The request as \<^verbatim>\<open>handleRequest\<close> reads it: \<^verbatim>\<open>req.method\<close>, the path and the
  \<^verbatim>\<open>sessionId\<close> parameter of the parsed URL (\<^verbatim>\<open>searchParams.get\<close> returns \<^verbatim>\<open>null\<close>, here
  \<open>None\<close>, for a parameter that is absent), the two headers (\<^verbatim>\<open>undefined\<close>, here \<open>None\<close>,
  when absent) and the body, read to its end and parsed. A request whose URL does not parse
  is outside the model.
\<close>

record Request =
  httpMethod :: string
  pathname :: string
  sessionIdFromQuery :: "string option"
  sessionIdFromHeader :: "string option"
  authorization :: "string option"
  body :: ParsedBody

record Response =
  status :: nat
  headers :: "(string \<times> string) list"
  content :: "json option"

text \<open>
  What a call of \<^verbatim>\<open>handleRequest\<close> ends with: a response written, or an exception that
  leaves the handler (its promise is rejected and no response is written).
\<close>

datatype Outcome = Responded Response | Uncaught string

definition jsonError :: "nat \<Rightarrow> string \<Rightarrow> Response" where
  "jsonError code msg =
     \<lparr> status = code, headers = [(''Content-Type'', ''application/json'')],
       content = Some (JObject [(''error'', JString msg)]) \<rparr>"

definition jsonOk :: "string \<Rightarrow> json \<Rightarrow> Response" where
  "jsonOk sessionId response =
     \<lparr> status = 200,
       headers = [(''Content-Type'', ''application/json''), (''mcp-session-id'', sessionId)],
       content = Some response \<rparr>"

definition emptyOk :: Response where
  "emptyOk = \<lparr> status = 200, headers = [], content = None \<rparr>"

definition initializeResult :: "Message \<Rightarrow> json" where
  "initializeResult message =
     withId message
       [(''result'',
         JObject [(''protocolVersion'', JString ''2024-11-05''),
                  (''capabilities'', JObject []),
                  (''serverInfo'', JObject [(''name'', JString ''blueprints-mcp-server''),
                                            (''version'', JString ''1.0.0'')])])]"

text \<open>
  Lines 56 to 66 of \<^verbatim>\<open>handleRequest\<close>: \<^verbatim>\<open>sessionId\<close> is assigned only when the query
  parameter and the header are both truthy (present and not empty) and equal.
\<close>

definition requestSessionId :: "Request \<Rightarrow> string option" where
  "requestSessionId req =
     (case sessionIdFromQuery req of
        None \<Rightarrow> None
      | Some q \<Rightarrow>
          (case sessionIdFromHeader req of
             None \<Rightarrow> None
           | Some h \<Rightarrow> if q \<noteq> [] \<and> h \<noteq> [] \<and> q = h then Some q else None))"

text \<open>
  The test of line 147, \<^verbatim>\<open>requiredScope && !hasScope(session, requiredScope)\<close>: the
  result is the scope that the 403 response names when the test holds, \<open>None\<close> when the
  request passes.
\<close>

definition deniedScope :: "SessionData \<Rightarrow> Message \<Rightarrow> ScopeValue option" where
  "deniedScope session message =
     (case getRequiredScope (msg_method message) of
        None \<Rightarrow> None
      | Some requiredScope \<Rightarrow> if hasScope session requiredScope then None else Some requiredScope)"

text \<open>
  The \<^verbatim>\<open>try\<close> block of \<^verbatim>\<open>handleRequest\<close> (lines 132 to 185), entered once the session
  is validated. \<open>srv\<close> is the \<^verbatim>\<open>receiveMessage\<close> function of the server instance, \<open>None\<close>
  when there is no instance or it has no such function.
\<close>

definition processMessage ::
  "(Message \<Rightarrow> string + json) option \<Rightarrow> string \<Rightarrow> SessionData \<Rightarrow> ParsedBody \<Rightarrow> Response" where
  "processMessage srv sessionId session b =
     (case b of
        Throws e \<Rightarrow> jsonError 500 (if e = [] then ''Internal server error'' else e)
      | Parsed message \<Rightarrow>
          if msg_method message = Some ''notifications/initialized'' then emptyOk
          else
            (case deniedScope session message of
               Some requiredScope \<Rightarrow>
                 jsonError 403 (''Insufficient permissions. Required scope: ''
                                @ scopeText requiredScope)
             | None \<Rightarrow>
                 (case srv of
                    Some receive \<Rightarrow>
                      (case receive message of
                         Inl e \<Rightarrow> jsonError 500 (if e = [] then ''Internal server error'' else e)
                       | Inr response \<Rightarrow> jsonOk sessionId response)
                  | None \<Rightarrow>
                      if idTruthy message then jsonOk sessionId (processedResult message)
                      else emptyOk)))"

text \<open>
  \<^verbatim>\<open>handleRequest\<close>. \<open>now\<close> is the clock and \<open>newId\<close> the identifier that
  \<^verbatim>\<open>generateSecureSessionId\<close> would return during this request. The result is the
  outcome and the session store after the request.
\<close>

definition handleRequest ::
  "(Message \<Rightarrow> string + json) option \<Rightarrow> int \<Rightarrow> string \<Rightarrow> AuthManager \<Rightarrow> Request
     \<Rightarrow> Outcome \<times> AuthManager" where
  "handleRequest srv now newId am req =
     (if httpMethod req \<noteq> ''POST'' then (Responded (jsonError 404 ''Not found''), am)
      else if pathname req \<noteq> ''/mcp/messages'' then (Responded (jsonError 404 ''Not found''), am)
      else
        (case authorization req of
           None \<Rightarrow> (Responded (jsonError 401 ''Missing or invalid authorization header''), am)
         | Some authHeader \<Rightarrow>
             if authHeader = [] \<or> \<not> prefix ''Bearer '' authHeader then
               (Responded (jsonError 401 ''Missing or invalid authorization header''), am)
             else if \<not> validateApiKey (drop 7 authHeader) then
               (Responded (jsonError 401 ''Invalid API key format''), am)
             else
               (case requestSessionId req of
                  None \<Rightarrow>
                    (case body req of
                       Throws e \<Rightarrow> (Uncaught e, am)
                     | Parsed message \<Rightarrow>
                         if msg_method message = Some ''initialize'' then
                           (let (session, am') =
                                  createSession am newId now ''demo-user'' [''read'', ''write'']
                            in (Responded (jsonOk (id_s session) (initializeResult message)), am'))
                         else
                           (Responded (jsonError 401 ''Session required for this request''), am))
                | Some sessionId \<Rightarrow>
                    (case validateSession am now sessionId of
                       (None, am') \<Rightarrow>
                         (Responded (jsonError 401 ''Invalid or expired session''), am')
                     | (Some session, am') \<Rightarrow>
                         (Responded (processMessage srv sessionId session (body req)), am')))))"

text \<open>The tools that \<^verbatim>\<open>registerTools\<close> registers (src/unnamed/part_000): the known operations.\<close>

definition toolNames :: "string list" where
  "toolNames =
     [''list_agents'', ''create_agent'', ''start_agent'', ''stop_agent'', ''edit_agent_config'',
      ''remove_agent'', ''send_message'', ''send_terminal'', ''agent_status'',
      ''account_register'', ''pay_upgrade'']"

text \<open>Whether a response body is a JSON object with the given property.\<close>

definition hasMember :: "string \<Rightarrow> json option \<Rightarrow> bool" where
  "hasMember k c = (case c of Some (JObject kvs) \<Rightarrow> k \<in> fst ` set kvs | _ \<Rightarrow> False)"

section \<open>Sample values\<close>

text \<open>
  A store with one live session created at time 1000 (so it expires at 1801000), and
  requests to the message endpoint; the token \<^verbatim>\<open>bp_sk_test_key\<close> is the one of
  src/test/basic.test.ts.
\<close>

definition sampleSession :: SessionData where
  "sampleSession =
     \<lparr> id_s = ''5f2a'', userId = ''demo-user'', createdAt = 1000, lastActivity = 1000,
       scopes = [''read'', ''write''], expiresAt = 1801000 \<rparr>"

definition adminSession :: SessionData where
  "adminSession = sampleSession\<lparr> scopes := [''admin''] \<rparr>"

definition emptyManager :: AuthManager where
  "emptyManager = \<lparr> sessions = Map.empty, secret = ''default-secret-change-in-production'' \<rparr>"

definition sampleManager :: AuthManager where
  "sampleManager = emptyManager\<lparr> sessions := [''5f2a'' \<mapsto> sampleSession] \<rparr>"

definition sampleMessage :: "json option \<Rightarrow> string \<Rightarrow> Message" where
  "sampleMessage i m = \<lparr> msg_id = i, msg_method = Some m, msg_params = Some (JObject []) \<rparr>"

definition sampleRequest :: "string option \<Rightarrow> string option \<Rightarrow> string \<Rightarrow> Message \<Rightarrow> Request" where
  "sampleRequest q h auth message =
     \<lparr> httpMethod = ''POST'', pathname = ''/mcp/messages'', sessionIdFromQuery = q,
       sessionIdFromHeader = h, authorization = Some auth, body = Parsed message \<rparr>"


section \<open>Properties of the session store\<close>

lemma sampleManager_lookup: "sessions sampleManager ''5f2a'' = Some sampleSession"
  by (simp add: sampleManager_def emptyManager_def)

text \<open>
  Claim C3. The record that \<open>createSession\<close> returns expires exactly 30 minutes
  (1800000 ms) after its creation time; \<open>createSession\<close> is a total function, the record
  is stored under its identifier and a validation at the time of creation returns it.
  For every later clock reading \<open>now\<close>, validation of the stored record succeeds exactly
  when \<open>now \<le> expiresAt\<close>, that is when \<open>now \<le> createdAt + 30min\<close>: the instant
  \<open>createdAt + 30min\<close> itself is still valid, every later instant is not, and the record is
  removed from the store by the validation exactly when it is refused.
\<close>

theorem createSession_lifetime:
  "(case createSession am sid t0 uid scs of
      (s, am1) \<Rightarrow>
        expiresAt s = createdAt s + 30 * 60 * 1000
      \<and> createdAt s = t0 \<and> id_s s = sid \<and> userId s = uid \<and> scopes s = scs
      \<and> sessions am1 sid = Some s
      \<and> validateSession am1 t0 sid = (Some s, am1)
      \<and> (\<forall>now. (fst (validateSession am1 now sid) \<noteq> None) = (now \<le> expiresAt s))
      \<and> (\<forall>now. (fst (validateSession am1 now sid) = None) = (now > createdAt s + 30 * 60 * 1000))
      \<and> (\<forall>now. (sessions (snd (validateSession am1 now sid)) sid = None)
                 = (now > createdAt s + 30 * 60 * 1000)))"
  by (simp add: createSession_def validateSession_def destroySession_def Let_def)

text \<open>
  Claim C4. \<open>validateSession\<close> returns \<open>None\<close> (not found) exactly when the identifier
  is absent from the store or its record has expired (\<open>now > expiresAt\<close>). For an expired
  record the store returned is the old one with the record deleted. For a live record the
  result is the record with \<open>lastActivity\<close> set to \<open>now\<close>, and that record is the one stored.
  A record that is returned is never an expired one.
\<close>

theorem validateSession_outcome:
  "(fst (validateSession am now sid) = None)
      = (sessions am sid = None \<or> (\<exists>s. sessions am sid = Some s \<and> now > expiresAt s))
   \<and> (\<forall>s. sessions am sid = Some s \<and> now > expiresAt s \<longrightarrow>
         validateSession am now sid = (None, destroySession am sid)
       \<and> sessions (destroySession am sid) sid = None)
   \<and> (\<forall>s. sessions am sid = Some s \<and> \<not> now > expiresAt s \<longrightarrow>
         validateSession am now sid
           = (Some (s\<lparr> lastActivity := now \<rparr>),
              am\<lparr> sessions := (sessions am)(sid \<mapsto> s\<lparr> lastActivity := now \<rparr>) \<rparr>))
   \<and> (\<forall>s'. fst (validateSession am now sid) = Some s' \<longrightarrow>
         now \<le> expiresAt s' \<and> lastActivity s' = now
       \<and> sessions (snd (validateSession am now sid)) sid = Some s')"
  by (auto simp: validateSession_def destroySession_def Let_def split: option.splits)

theorem validateSession_outcome_witness:
  "validateSession sampleManager 1801001 ''5f2a'' = (None, destroySession sampleManager ''5f2a'')
   \<and> sessions (destroySession sampleManager ''5f2a'') ''5f2a'' = None
   \<and> validateSession sampleManager 1801000 ''5f2a''
       = (Some (sampleSession\<lparr> lastActivity := 1801000 \<rparr>),
          sampleManager\<lparr> sessions := (sessions sampleManager)
                           (''5f2a'' \<mapsto> sampleSession\<lparr> lastActivity := 1801000 \<rparr>) \<rparr>)
   \<and> fst (validateSession sampleManager 2000 ''0000'') = None"
proof -
  have late: "1801001 > expiresAt sampleSession" and intime: "\<not> 1801000 > expiresAt sampleSession"
    by (simp_all add: sampleSession_def)
  have absent: "sessions sampleManager ''0000'' = None"
    by (simp add: sampleManager_def emptyManager_def)
  from validateSession_outcome [of sampleManager 1801001 "''5f2a''"] sampleManager_lookup late
  have a: "validateSession sampleManager 1801001 ''5f2a'' = (None, destroySession sampleManager ''5f2a'')
     \<and> sessions (destroySession sampleManager ''5f2a'') ''5f2a'' = None"
    by blast
  from validateSession_outcome [of sampleManager 1801000 "''5f2a''"] sampleManager_lookup intime
  have b: "validateSession sampleManager 1801000 ''5f2a''
       = (Some (sampleSession\<lparr> lastActivity := 1801000 \<rparr>),
          sampleManager\<lparr> sessions := (sessions sampleManager)
                           (''5f2a'' \<mapsto> sampleSession\<lparr> lastActivity := 1801000 \<rparr>) \<rparr>)"
    by blast
  from validateSession_outcome [of sampleManager 2000 "''0000''"] absent
  have c: "fst (validateSession sampleManager 2000 ''0000'') = None"
    by blast
  from a b c show ?thesis by blast
qed

text \<open>
  Claim C10. A successful validation of a live record (\<open>now \<le> expiresAt\<close>) returns and
  stores the record with only \<open>lastActivity\<close> changed: identifier, user, creation time,
  scopes and expiry are those of the record before, so activity never extends the expiry.
  Every other key of the store maps to what it mapped to before, and the secret is unchanged.
\<close>

theorem validateSession_frame:
  assumes "sessions am sid = Some s" and "now \<le> expiresAt s"
  shows "\<exists>s'. validateSession am now sid = (Some s', snd (validateSession am now sid))
     \<and> s' = s\<lparr> lastActivity := now \<rparr>
     \<and> id_s s' = id_s s \<and> userId s' = userId s \<and> createdAt s' = createdAt s
     \<and> scopes s' = scopes s \<and> expiresAt s' = expiresAt s
     \<and> lastActivity s' = now
     \<and> sessions (snd (validateSession am now sid)) sid = Some s'
     \<and> (\<forall>k. k \<noteq> sid \<longrightarrow> sessions (snd (validateSession am now sid)) k = sessions am k)
     \<and> secret (snd (validateSession am now sid)) = secret am"
  using assms by (simp add: validateSession_def Let_def)

theorem validateSession_frame_witness:
  "\<exists>s'. validateSession sampleManager 2000 ''5f2a''
          = (Some s', snd (validateSession sampleManager 2000 ''5f2a''))
     \<and> expiresAt s' = 1801000 \<and> createdAt s' = 1000 \<and> lastActivity s' = 2000
     \<and> scopes s' = [''read'', ''write''] \<and> userId s' = ''demo-user'' \<and> id_s s' = ''5f2a''"
proof -
  have ok: "2000 \<le> expiresAt sampleSession" by (simp add: sampleSession_def)
  from validateSession_frame [OF sampleManager_lookup ok]
  show ?thesis by (auto simp: sampleSession_def)
qed

section \<open>Properties of the request handler\<close>

text \<open>
  The keys of the scope table are the names of the registered tools, first in the spelling
  prefixed with \<^verbatim>\<open>tools/\<close>, then bare.
\<close>

lemma scopeMap_keys:
  "map fst scopeMap = map (\<lambda>op. ''tools/'' @ op) toolNames @ toolNames"
  by (simp add: scopeMap_def toolNames_def)

text \<open>
  Claim C9. For every known operation (a tool that the server registers),
  \<open>getRequiredScope\<close> returns the same value for the spelling prefixed with \<^verbatim>\<open>tools/\<close> and
  for the bare spelling, and that value is a scope name of the table.
\<close>

theorem getRequiredScope_spellings_agree:
  "op \<in> set toolNames \<Longrightarrow>
     getRequiredScope (Some (''tools/'' @ op)) = getRequiredScope (Some op)
   \<and> (\<exists>scope. getRequiredScope (Some op) = Some (ScopeName scope))"
proof -
  have "\<forall>t\<in>set toolNames.
          getRequiredScope (Some (''tools/'' @ t)) = getRequiredScope (Some t)
        \<and> (\<exists>scope. getRequiredScope (Some t) = Some (ScopeName scope))"
    unfolding toolNames_def
    by (simp add: getRequiredScope_def scopeMap_def objectPrototypeMembers_def)
  then show "op \<in> set toolNames \<Longrightarrow>
     getRequiredScope (Some (''tools/'' @ op)) = getRequiredScope (Some op)
   \<and> (\<exists>scope. getRequiredScope (Some op) = Some (ScopeName scope))"
    by blast
qed

theorem getRequiredScope_spellings_agree_witness:
  "getRequiredScope (Some ''tools/send_terminal'') = getRequiredScope (Some ''send_terminal'')
   \<and> getRequiredScope (Some ''send_terminal'') = Some (ScopeName ''terminal'')"
proof -
  have known: "''send_terminal'' \<in> set toolNames" by (simp add: toolNames_def)
  have same: "getRequiredScope (Some ''tools/send_terminal'') = getRequiredScope (Some ''send_terminal'')"
    using getRequiredScope_spellings_agree [OF known] by simp
  have "getRequiredScope (Some ''send_terminal'') = Some (ScopeName ''terminal'')"
    by (simp add: getRequiredScope_def scopeMap_def)
  with same show ?thesis by simp
qed

text \<open>
  Claim C8. A POST to the message endpoint whose bearer token fails the format check is
  answered with 401, whatever its method and its session identifiers are (the request is
  arbitrary but for the endpoint and the token), and the session store is returned
  unchanged: no session is created, touched or deleted. The hypothesis covers a token
  without the prefix \<^verbatim>\<open>bp_sk_\<close>, a token of at most 8 characters, and an authorization header
  that is missing or does not start with \<^verbatim>\<open>Bearer \<close>.
\<close>

theorem bad_token_rejected:
  assumes "httpMethod req = ''POST''" and "pathname req = ''/mcp/messages''"
    and "\<forall>token. authorization req = Some (''Bearer '' @ token) \<longrightarrow> \<not> validateApiKey token"
  shows "handleRequest srv now newId am req =
           (Responded (jsonError 401
              (if (\<exists>token. authorization req = Some (''Bearer '' @ token))
               then ''Invalid API key format''
               else ''Missing or invalid authorization header'')), am)"
proof (cases "authorization req")
  case None
  then show ?thesis using assms by (simp add: handleRequest_def)
next
  case (Some h)
  show ?thesis
  proof (cases "prefix ''Bearer '' h")
    case False
    then have "\<not> (\<exists>token. authorization req = Some (''Bearer '' @ token))"
      using Some by (auto simp: prefix_def)
    then show ?thesis using assms Some False by (simp add: handleRequest_def)
  next
    case True
    then obtain token where h: "h = ''Bearer '' @ token" by (auto simp: prefix_def)
    then have "\<not> validateApiKey token" using assms Some by simp
    then show ?thesis using assms(1,2) Some h by (simp add: handleRequest_def)
  qed
qed

theorem bad_token_rejected_witness:
  "handleRequest None 2000 ''77aa'' sampleManager
     (sampleRequest (Some ''5f2a'') (Some ''5f2a'') ''Bearer bp_sk_ab''
        (sampleMessage (Some (JNum 1)) ''list_agents''))
     = (Responded (jsonError 401 ''Invalid API key format''), sampleManager)
   \<and> handleRequest None 2000 ''77aa'' sampleManager
     (sampleRequest None None ''Bearer sk_live_0123456789''
        (sampleMessage (Some (JNum 1)) ''initialize''))
     = (Responded (jsonError 401 ''Invalid API key format''), sampleManager)
   \<and> handleRequest None 2000 ''77aa'' sampleManager
     (sampleRequest (Some ''5f2a'') (Some ''5f2a'') ''bp_sk_test_key''
        (sampleMessage (Some (JNum 1)) ''list_agents''))
     = (Responded (jsonError 401 ''Missing or invalid authorization header''), sampleManager)"
proof -
  let ?short = "sampleRequest (Some ''5f2a'') (Some ''5f2a'') ''Bearer bp_sk_ab''
        (sampleMessage (Some (JNum 1)) ''list_agents'')"
  let ?other = "sampleRequest None None ''Bearer sk_live_0123456789''
        (sampleMessage (Some (JNum 1)) ''initialize'')"
  let ?bare = "sampleRequest (Some ''5f2a'') (Some ''5f2a'') ''bp_sk_test_key''
        (sampleMessage (Some (JNum 1)) ''list_agents'')"
  have s1: "httpMethod ?short = ''POST''" and s2: "pathname ?short = ''/mcp/messages''"
    and s3: "\<forall>token. authorization ?short = Some (''Bearer '' @ token) \<longrightarrow> \<not> validateApiKey token"
    by (simp_all add: sampleRequest_def validateApiKey_def)
  have o1: "httpMethod ?other = ''POST''" and o2: "pathname ?other = ''/mcp/messages''"
    and o3: "\<forall>token. authorization ?other = Some (''Bearer '' @ token) \<longrightarrow> \<not> validateApiKey token"
    by (simp_all add: sampleRequest_def validateApiKey_def)
  have b1: "httpMethod ?bare = ''POST''" and b2: "pathname ?bare = ''/mcp/messages''"
    and b3: "\<forall>token. authorization ?bare = Some (''Bearer '' @ token) \<longrightarrow> \<not> validateApiKey token"
    by (simp_all add: sampleRequest_def validateApiKey_def)
  have a: "handleRequest None 2000 ''77aa'' sampleManager ?short
      = (Responded (jsonError 401 ''Invalid API key format''), sampleManager)"
    using bad_token_rejected [OF s1 s2 s3, of None 2000 "''77aa''" sampleManager]
    by (simp add: sampleRequest_def)
  have b: "handleRequest None 2000 ''77aa'' sampleManager ?other
      = (Responded (jsonError 401 ''Invalid API key format''), sampleManager)"
    using bad_token_rejected [OF o1 o2 o3, of None 2000 "''77aa''" sampleManager]
    by (simp add: sampleRequest_def)
  have c: "handleRequest None 2000 ''77aa'' sampleManager ?bare
      = (Responded (jsonError 401 ''Missing or invalid authorization header''), sampleManager)"
    using bad_token_rejected [OF b1 b2 b3, of None 2000 "''77aa''" sampleManager]
    by (simp add: sampleRequest_def)
  from a b c show ?thesis by blast
qed

text \<open>
  Claim C2. A request whose query parameter and header carry different session identifiers
  is handled exactly as the same request with neither of them. With a well-formed token
  and a parsed body: the method \<^verbatim>\<open>initialize\<close> creates a session (stored under the new
  identifier) and is answered with 200 and the handshake result; any other method is answered
  with 401, session required, and the store is unchanged.
\<close>

theorem mismatched_ids_as_none:
  assumes "sessionIdFromQuery req = Some q" and "sessionIdFromHeader req = Some h" and "q \<noteq> h"
  shows "handleRequest srv now newId am req
           = handleRequest srv now newId am
               (req\<lparr> sessionIdFromQuery := None, sessionIdFromHeader := None \<rparr>)
     \<and> (httpMethod req = ''POST'' \<and> pathname req = ''/mcp/messages''
          \<and> authorization req = Some (''Bearer '' @ token) \<and> validateApiKey token
          \<and> body req = Parsed m \<longrightarrow>
         (msg_method m = Some ''initialize'' \<longrightarrow>
            handleRequest srv now newId am req
              = (Responded (jsonOk newId (initializeResult m)),
                 snd (createSession am newId now ''demo-user'' [''read'', ''write'']))
          \<and> status (jsonOk newId (initializeResult m)) = 200
          \<and> hasMember ''result'' (content (jsonOk newId (initializeResult m)))
          \<and> sessions (snd (handleRequest srv now newId am req)) newId
              = Some (fst (createSession am newId now ''demo-user'' [''read'', ''write''])))
       \<and> (msg_method m \<noteq> Some ''initialize'' \<longrightarrow>
            handleRequest srv now newId am req
              = (Responded (jsonError 401 ''Session required for this request''), am)))"
proof -
  have n1: "requestSessionId req = None"
    using assms by (simp add: requestSessionId_def)
  have n2: "requestSessionId (req\<lparr> sessionIdFromQuery := None, sessionIdFromHeader := None \<rparr>) = None"
    by (simp add: requestSessionId_def)
  have same: "handleRequest srv now newId am req
           = handleRequest srv now newId am
               (req\<lparr> sessionIdFromQuery := None, sessionIdFromHeader := None \<rparr>)"
    by (simp add: handleRequest_def n1 n2 split: option.split)
  have rest: "httpMethod req = ''POST'' \<and> pathname req = ''/mcp/messages''
          \<and> authorization req = Some (''Bearer '' @ token) \<and> validateApiKey token
          \<and> body req = Parsed m \<longrightarrow>
         (msg_method m = Some ''initialize'' \<longrightarrow>
            handleRequest srv now newId am req
              = (Responded (jsonOk newId (initializeResult m)),
                 snd (createSession am newId now ''demo-user'' [''read'', ''write'']))
          \<and> status (jsonOk newId (initializeResult m)) = 200
          \<and> hasMember ''result'' (content (jsonOk newId (initializeResult m)))
          \<and> sessions (snd (handleRequest srv now newId am req)) newId
              = Some (fst (createSession am newId now ''demo-user'' [''read'', ''write''])))
       \<and> (msg_method m \<noteq> Some ''initialize'' \<longrightarrow>
            handleRequest srv now newId am req
              = (Responded (jsonError 401 ''Session required for this request''), am))"
    by (simp add: handleRequest_def n1 createSession_def Let_def jsonOk_def
      hasMember_def initializeResult_def withId_def)
  from same rest show ?thesis by blast
qed

theorem mismatched_ids_as_none_witness:
  "handleRequest None 2000 ''77aa'' sampleManager
     (sampleRequest (Some ''5f2a'') (Some ''ffff'') ''Bearer bp_sk_test_key''
        (sampleMessage (Some (JNum 1)) ''initialize''))
     = (Responded (jsonOk ''77aa'' (initializeResult (sampleMessage (Some (JNum 1)) ''initialize''))),
        snd (createSession sampleManager ''77aa'' 2000 ''demo-user'' [''read'', ''write'']))
   \<and> handleRequest None 2000 ''77aa'' sampleManager
     (sampleRequest (Some ''5f2a'') (Some ''ffff'') ''Bearer bp_sk_test_key''
        (sampleMessage (Some (JNum 1)) ''list_agents''))
     = (Responded (jsonError 401 ''Session required for this request''), sampleManager)"
proof -
  let ?init = "sampleRequest (Some ''5f2a'') (Some ''ffff'') ''Bearer bp_sk_test_key''
        (sampleMessage (Some (JNum 1)) ''initialize'')"
  let ?list = "sampleRequest (Some ''5f2a'') (Some ''ffff'') ''Bearer bp_sk_test_key''
        (sampleMessage (Some (JNum 1)) ''list_agents'')"
  let ?mi = "sampleMessage (Some (JNum 1)) ''initialize''"
  let ?ml = "sampleMessage (Some (JNum 1)) ''list_agents''"
  have differ: "''5f2a'' \<noteq> ''ffff''" by simp
  have i1: "sessionIdFromQuery ?init = Some ''5f2a''" and i2: "sessionIdFromHeader ?init = Some ''ffff''"
    and l1: "sessionIdFromQuery ?list = Some ''5f2a''" and l2: "sessionIdFromHeader ?list = Some ''ffff''"
    by (simp_all add: sampleRequest_def)
  have ih: "httpMethod ?init = ''POST'' \<and> pathname ?init = ''/mcp/messages''
          \<and> authorization ?init = Some (''Bearer '' @ ''bp_sk_test_key'')
          \<and> validateApiKey ''bp_sk_test_key'' \<and> body ?init = Parsed ?mi"
    and lh: "httpMethod ?list = ''POST'' \<and> pathname ?list = ''/mcp/messages''
          \<and> authorization ?list = Some (''Bearer '' @ ''bp_sk_test_key'')
          \<and> validateApiKey ''bp_sk_test_key'' \<and> body ?list = Parsed ?ml"
    by (simp_all add: sampleRequest_def validateApiKey_def)
  have im: "msg_method ?mi = Some ''initialize''" and lm: "msg_method ?ml \<noteq> Some ''initialize''"
    by (simp_all add: sampleMessage_def)
  have a: "handleRequest None 2000 ''77aa'' sampleManager ?init
     = (Responded (jsonOk ''77aa'' (initializeResult ?mi)),
        snd (createSession sampleManager ''77aa'' 2000 ''demo-user'' [''read'', ''write'']))"
    using mismatched_ids_as_none [OF i1 i2 differ, where srv = None and now = 2000 and newId = "''77aa''"
        and am = sampleManager and token = "''bp_sk_test_key''" and m = ?mi] ih im
    by blast
  have b: "handleRequest None 2000 ''77aa'' sampleManager ?list
     = (Responded (jsonError 401 ''Session required for this request''), sampleManager)"
    using mismatched_ids_as_none [OF l1 l2 differ, where srv = None and now = 2000 and newId = "''77aa''"
        and am = sampleManager and token = "''bp_sk_test_key''" and m = ?ml] lh lm
    by blast
  from a b show ?thesis by blast
qed


lemma processMessage_status:
  "status (processMessage srv sid session b) = 200
   \<or> status (processMessage srv sid session b) = 403
   \<or> status (processMessage srv sid session b) = 500"
  by (simp add: processMessage_def jsonError_def jsonOk_def emptyOk_def
      split: ParsedBody.split option.split sum.split)

text \<open>
  Claim C1, as stated, fails: an identifier supplied by the header \<^verbatim>\<open>mcp-session-id\<close> alone
  is never passed to the session store. The store holds the live session \<^verbatim>\<open>5f2a\<close> and
  would validate it at time 2000, yet the request that names it in the header only is
  answered with 401 "Session required" and the store is left as it was; and a request
  naming the unknown identifier \<^verbatim>\<open>0000\<close> in the header only, with the method
  \<^verbatim>\<open>initialize\<close>, is not refused as an invalid session but answered with a new session.
\<close>

theorem header_only_id_not_validated:
  "fst (validateSession sampleManager 2000 ''5f2a'') = Some (sampleSession\<lparr> lastActivity := 2000 \<rparr>)
   \<and> handleRequest None 2000 ''77aa'' sampleManager
        (sampleRequest None (Some ''5f2a'') ''Bearer bp_sk_test_key''
           (sampleMessage (Some (JNum 1)) ''list_agents''))
      = (Responded (jsonError 401 ''Session required for this request''), sampleManager)
   \<and> fst (validateSession sampleManager 2000 ''0000'') = None
   \<and> handleRequest None 2000 ''77aa'' sampleManager
        (sampleRequest None (Some ''0000'') ''Bearer bp_sk_test_key''
           (sampleMessage (Some (JNum 1)) ''initialize''))
      = (Responded (jsonOk ''77aa'' (initializeResult (sampleMessage (Some (JNum 1)) ''initialize''))),
         snd (createSession sampleManager ''77aa'' 2000 ''demo-user'' [''read'', ''write'']))"
  by (simp add: handleRequest_def requestSessionId_def sampleRequest_def sampleMessage_def
      validateApiKey_def validateSession_def sampleManager_def emptyManager_def sampleSession_def
      createSession_def Let_def)

text \<open>
  Claim C1, amended. For a POST to the message endpoint with a well-formed token that
  supplies the same non-empty session identifier in the query parameter \<^verbatim>\<open>sessionId\<close> and
  in the header \<^verbatim>\<open>mcp-session-id\<close>, the handler validates that identifier in the session
  store: when the store reports not found or expired the answer is 401 "Invalid or expired
  session"; when it reports a valid record the request goes on to the processing of the
  message with that record (the Active state), whose answer is never a 401. The store after
  the request is the store after the validation. A request that supplies the identifier
  through one channel only is handled as a request with no identifier.
\<close>

theorem matching_ids_validated:
  assumes "httpMethod req = ''POST''" and "pathname req = ''/mcp/messages''"
    and "authorization req = Some (''Bearer '' @ token)" and "validateApiKey token"
  shows "(sessionIdFromQuery req = Some sid \<and> sessionIdFromHeader req = Some sid \<and> sid \<noteq> [] \<longrightarrow>
           (fst (validateSession am now sid) = None \<longrightarrow>
              handleRequest srv now newId am req
                = (Responded (jsonError 401 ''Invalid or expired session''),
                   snd (validateSession am now sid)))
         \<and> (\<forall>session. fst (validateSession am now sid) = Some session \<longrightarrow>
              handleRequest srv now newId am req
                = (Responded (processMessage srv sid session (body req)),
                   snd (validateSession am now sid))
            \<and> status (processMessage srv sid session (body req)) \<noteq> 401))
     \<and> (sessionIdFromQuery req = None \<or> sessionIdFromHeader req = None \<longrightarrow>
           handleRequest srv now newId am req
             = handleRequest srv now newId am
                 (req\<lparr> sessionIdFromQuery := None, sessionIdFromHeader := None \<rparr>))"
proof -
  have both: "sessionIdFromQuery req = Some sid \<and> sessionIdFromHeader req = Some sid \<and> sid \<noteq> [] \<longrightarrow>
           (fst (validateSession am now sid) = None \<longrightarrow>
              handleRequest srv now newId am req
                = (Responded (jsonError 401 ''Invalid or expired session''),
                   snd (validateSession am now sid)))
         \<and> (\<forall>session. fst (validateSession am now sid) = Some session \<longrightarrow>
              handleRequest srv now newId am req
                = (Responded (processMessage srv sid session (body req)),
                   snd (validateSession am now sid))
            \<and> status (processMessage srv sid session (body req)) \<noteq> 401)"
  proof (intro impI, elim conjE)
    assume ids: "sessionIdFromQuery req = Some sid" "sessionIdFromHeader req = Some sid" "sid \<noteq> []"
    then have r: "requestSessionId req = Some sid" by (simp add: requestSessionId_def)
    obtain res am' where v: "validateSession am now sid = (res, am')"
      by (cases "validateSession am now sid")
    have st: "status (processMessage srv sid session (body req)) \<noteq> 401" for session
      using processMessage_status [of srv sid session "body req"] by auto
    show "(fst (validateSession am now sid) = None \<longrightarrow>
              handleRequest srv now newId am req
                = (Responded (jsonError 401 ''Invalid or expired session''),
                   snd (validateSession am now sid)))
         \<and> (\<forall>session. fst (validateSession am now sid) = Some session \<longrightarrow>
              handleRequest srv now newId am req
                = (Responded (processMessage srv sid session (body req)),
                   snd (validateSession am now sid))
            \<and> status (processMessage srv sid session (body req)) \<noteq> 401)"
      using assms r v st by (cases res) (simp_all add: handleRequest_def)
  qed
  have one: "sessionIdFromQuery req = None \<or> sessionIdFromHeader req = None \<longrightarrow>
           handleRequest srv now newId am req
             = handleRequest srv now newId am
                 (req\<lparr> sessionIdFromQuery := None, sessionIdFromHeader := None \<rparr>)"
  proof
    assume "sessionIdFromQuery req = None \<or> sessionIdFromHeader req = None"
    then have n1: "requestSessionId req = None"
      by (auto simp: requestSessionId_def split: option.split)
    have n2: "requestSessionId (req\<lparr> sessionIdFromQuery := None, sessionIdFromHeader := None \<rparr>) = None"
      by (simp add: requestSessionId_def)
    show "handleRequest srv now newId am req
             = handleRequest srv now newId am
                 (req\<lparr> sessionIdFromQuery := None, sessionIdFromHeader := None \<rparr>)"
      by (simp add: handleRequest_def n1 n2 split: option.split)
  qed
  from both one show ?thesis by blast
qed

theorem matching_ids_validated_witness:
  "handleRequest None 2000 ''77aa'' sampleManager
     (sampleRequest (Some ''5f2a'') (Some ''5f2a'') ''Bearer bp_sk_test_key''
        (sampleMessage (Some (JNum 1)) ''list_agents''))
     = (Responded (processMessage None ''5f2a'' (sampleSession\<lparr> lastActivity := 2000 \<rparr>)
                     (Parsed (sampleMessage (Some (JNum 1)) ''list_agents''))),
        snd (validateSession sampleManager 2000 ''5f2a''))
   \<and> handleRequest None 1801001 ''77aa'' sampleManager
     (sampleRequest (Some ''5f2a'') (Some ''5f2a'') ''Bearer bp_sk_test_key''
        (sampleMessage (Some (JNum 1)) ''list_agents''))
     = (Responded (jsonError 401 ''Invalid or expired session''),
        snd (validateSession sampleManager 1801001 ''5f2a''))
   \<and> handleRequest None 2000 ''77aa'' sampleManager
     (sampleRequest None (Some ''5f2a'') ''Bearer bp_sk_test_key''
        (sampleMessage (Some (JNum 1)) ''list_agents''))
     = handleRequest None 2000 ''77aa'' sampleManager
     (sampleRequest None (Some ''5f2a'') ''Bearer bp_sk_test_key''
        (sampleMessage (Some (JNum 1)) ''list_agents'')
      \<lparr> sessionIdFromQuery := None, sessionIdFromHeader := None \<rparr>)"
proof -
  let ?m = "sampleMessage (Some (JNum 1)) ''list_agents''"
  let ?both = "sampleRequest (Some ''5f2a'') (Some ''5f2a'') ''Bearer bp_sk_test_key'' ?m"
  let ?header = "sampleRequest None (Some ''5f2a'') ''Bearer bp_sk_test_key'' ?m"
  have key: "validateApiKey ''bp_sk_test_key''" by (simp add: validateApiKey_def)
  have b1: "httpMethod ?both = ''POST''" and b2: "pathname ?both = ''/mcp/messages''"
    and b3: "authorization ?both = Some (''Bearer '' @ ''bp_sk_test_key'')"
    and h1: "httpMethod ?header = ''POST''" and h2: "pathname ?header = ''/mcp/messages''"
    and h3: "authorization ?header = Some (''Bearer '' @ ''bp_sk_test_key'')"
    by (simp_all add: sampleRequest_def)
  have ids: "sessionIdFromQuery ?both = Some ''5f2a'' \<and> sessionIdFromHeader ?both = Some ''5f2a''
             \<and> ''5f2a'' \<noteq> []"
    and bd: "body ?both = Parsed ?m"
    and hq: "sessionIdFromQuery ?header = None"
    by (simp_all add: sampleRequest_def)
  have live: "fst (validateSession sampleManager 2000 ''5f2a'')
                = Some (sampleSession\<lparr> lastActivity := 2000 \<rparr>)"
    and dead: "fst (validateSession sampleManager 1801001 ''5f2a'') = None"
    by (simp_all add: validateSession_def sampleManager_lookup sampleSession_def Let_def)
  have a: "handleRequest None 2000 ''77aa'' sampleManager ?both
     = (Responded (processMessage None ''5f2a'' (sampleSession\<lparr> lastActivity := 2000 \<rparr>) (Parsed ?m)),
        snd (validateSession sampleManager 2000 ''5f2a''))"
    using matching_ids_validated [OF b1 b2 b3 key, where sid = "''5f2a''" and am = sampleManager
        and now = 2000 and srv = None and newId = "''77aa''"] ids live bd
    by metis
  have b: "handleRequest None 1801001 ''77aa'' sampleManager ?both
     = (Responded (jsonError 401 ''Invalid or expired session''),
        snd (validateSession sampleManager 1801001 ''5f2a''))"
    using matching_ids_validated [OF b1 b2 b3 key, where sid = "''5f2a''" and am = sampleManager
        and now = 1801001 and srv = None and newId = "''77aa''"] ids dead
    by blast
  have c: "handleRequest None 2000 ''77aa'' sampleManager ?header
     = handleRequest None 2000 ''77aa'' sampleManager
         (?header\<lparr> sessionIdFromQuery := None, sessionIdFromHeader := None \<rparr>)"
    using matching_ids_validated [OF h1 h2 h3 key, where am = sampleManager and now = 2000
        and srv = None and newId = "''77aa''"] hq
    by blast
  from a b c show ?thesis by blast
qed

section \<open>Scope policy\<close>

text \<open>
  Claim C5. The scope test of the handler lets a message through (\<open>deniedScope\<close> is
  \<open>None\<close>, and the answer of the processing is not a 403) exactly when the scopes of the
  session include \<^verbatim>\<open>admin\<close>, or include the value that \<open>getRequiredScope\<close> returns for the
  method, or \<open>getRequiredScope\<close> returns none. For a session whose scopes include
  \<^verbatim>\<open>admin\<close>, \<open>hasScope\<close> holds for every required scope, also one that is not among the
  scopes of the session.
\<close>

theorem scope_authorization:
  "(deniedScope session m = None)
      = (''admin'' \<in> set (scopes session)
         \<or> (\<exists>r. getRequiredScope (msg_method m) = Some r \<and> arrayIncludes (scopes session) r)
         \<or> getRequiredScope (msg_method m) = None)
   \<and> (status (processMessage srv sid session (Parsed m)) \<noteq> 403) = (deniedScope session m = None)
   \<and> (''admin'' \<in> set (scopes session) \<longrightarrow> (\<forall>v. hasScope session v))"
proof -
  have a: "(deniedScope session m = None)
      = (''admin'' \<in> set (scopes session)
         \<or> (\<exists>r. getRequiredScope (msg_method m) = Some r \<and> arrayIncludes (scopes session) r)
         \<or> getRequiredScope (msg_method m) = None)"
    by (auto simp: deniedScope_def hasScope_def arrayIncludes_def split: option.splits)
  have ack: "deniedScope session m = None" if "msg_method m = Some ''notifications/initialized''"
    using that
    by (simp add: deniedScope_def getRequiredScope_def scopeMap_def objectPrototypeMembers_def)
  have b: "(status (processMessage srv sid session (Parsed m)) \<noteq> 403) = (deniedScope session m = None)"
    using ack
    by (auto simp: processMessage_def jsonError_def jsonOk_def emptyOk_def
        split: option.splits sum.splits)
  have c: "''admin'' \<in> set (scopes session) \<longrightarrow> (\<forall>v. hasScope session v)"
    by (simp add: hasScope_def arrayIncludes_def)
  from a b c show ?thesis by blast
qed

theorem scope_authorization_witness:
  "''terminal'' \<notin> set (scopes adminSession)
   \<and> hasScope adminSession (ScopeName ''terminal'')
   \<and> deniedScope adminSession (sampleMessage (Some (JNum 1)) ''send_terminal'') = None
   \<and> deniedScope sampleSession (sampleMessage (Some (JNum 1)) ''send_terminal'') \<noteq> None"
proof -
  have adm: "''admin'' \<in> set (scopes adminSession)"
    and noterm: "''terminal'' \<notin> set (scopes adminSession)"
    by (simp_all add: adminSession_def)
  have plain: "''admin'' \<notin> set (scopes sampleSession)"
    and req: "getRequiredScope (msg_method (sampleMessage (Some (JNum 1)) ''send_terminal''))
                = Some (ScopeName ''terminal'')"
    and noinc: "\<not> arrayIncludes (scopes sampleSession) (ScopeName ''terminal'')"
    by (simp_all add: sampleSession_def sampleMessage_def getRequiredScope_def scopeMap_def
        arrayIncludes_def)
  have a: "hasScope adminSession (ScopeName ''terminal'')"
    using scope_authorization [of adminSession] adm by blast
  have b: "deniedScope adminSession (sampleMessage (Some (JNum 1)) ''send_terminal'') = None"
    using scope_authorization [of adminSession "sampleMessage (Some (JNum 1)) ''send_terminal''"] adm
    by blast
  have c: "deniedScope sampleSession (sampleMessage (Some (JNum 1)) ''send_terminal'') \<noteq> None"
    using scope_authorization [of sampleSession "sampleMessage (Some (JNum 1)) ''send_terminal''"]
      plain req noinc
    by auto
  from noterm a b c show ?thesis by blast
qed

text \<open>
  Claim C7 does not hold of the code. The method name \<^verbatim>\<open>constructor\<close> is not a key of the
  table, but the lookup \<^verbatim>\<open>scopeMap[method]\<close> finds the member of that name that the object
  literal inherits from \<^verbatim>\<open>Object.prototype\<close>; it is truthy, so \<open>getRequiredScope\<close> does not
  return \<^verbatim>\<open>null\<close>, no session without \<^verbatim>\<open>admin\<close> has that "scope", and the request of a
  validated session with the scopes read and write is answered with 403.
\<close>

theorem inherited_name_refused:
  "map_of scopeMap ''constructor'' = None
   \<and> getRequiredScope (Some ''constructor'') = Some (Inherited ''constructor'')
   \<and> handleRequest None 2000 ''77aa'' sampleManager
       (sampleRequest (Some ''5f2a'') (Some ''5f2a'') ''Bearer bp_sk_test_key''
          (sampleMessage (Some (JNum 1)) ''constructor''))
     = (Responded (jsonError 403
          ''Insufficient permissions. Required scope: function Object() { [native code] }''),
        snd (validateSession sampleManager 2000 ''5f2a''))"
  by (simp add: handleRequest_def requestSessionId_def sampleRequest_def sampleMessage_def
      validateApiKey_def validateSession_def sampleManager_lookup sampleSession_def
      processMessage_def deniedScope_def getRequiredScope_def scopeMap_def
      objectPrototypeMembers_def hasScope_def arrayIncludes_def scopeText_def Let_def)

text \<open>
  What does hold: a method name that is neither a key of the table nor a member of
  \<^verbatim>\<open>Object.prototype\<close> requires no scope, and the scope test lets it through for every
  session.
\<close>

lemma unmapped_method_passes:
  assumes "map_of scopeMap name = None" and "name \<notin> set objectPrototypeMembers"
  shows "getRequiredScope (Some name) = None
       \<and> deniedScope session \<lparr> msg_id = i, msg_method = Some name, msg_params = p \<rparr> = None"
  using assms by (simp add: getRequiredScope_def deniedScope_def)


section \<open>Response bodies\<close>











end
